theory Spec2Isabelle
  imports Complex_Main "HOL-Library.Word" "HOL-Library.AList"
begin

unbundle bit_operations_syntax

section \<open>Cell identities (pkg/model/types.go)\<close>

text \<open>
  The identifier types are Go's fixed-width unsigned integers.  Go's \<open>uint\<close> is taken at
  its 64-bit width (amd64, arm64), the width at which \<open>uint(plmnID) << 28\<close> loses no bit.
\<close>

type_synonym PlmnID = "32 word"
type_synonym EnbID = "32 word"
type_synonym CellID = "8 word"
type_synonym ECI = "32 word"
type_synonym GEnbID = "64 word"
type_synonym ECGI = "64 word"
type_synonym uint = "64 word"

definition mask28 :: uint where
  "mask28 = 0xfffffff"

definition mask20 :: uint where
  "mask20 = 0xfffff00"

definition ToECI :: "EnbID \<Rightarrow> CellID \<Rightarrow> ECI" where
  "ToECI enbID cid = ucast (push_bit 8 (ucast enbID :: uint) OR (ucast cid :: uint))"

definition ToECGI :: "PlmnID \<Rightarrow> ECI \<Rightarrow> ECGI" where
  "ToECGI plmnID eci = push_bit 28 (ucast plmnID :: uint) OR ((ucast eci :: uint) AND mask28)"

definition ToGEnbID :: "PlmnID \<Rightarrow> EnbID \<Rightarrow> GEnbID" where
  "ToGEnbID plmnID enbID =
     push_bit 28 (ucast plmnID :: uint) OR (push_bit 8 (ucast enbID :: uint) AND mask20)"

definition GetPlmnID :: "64 word \<Rightarrow> PlmnID" where
  "GetPlmnID ident = ucast (drop_bit 28 ident)"

definition GetCellID :: "64 word \<Rightarrow> CellID" where
  "GetCellID ident = ucast (ident AND 0xff)"

definition GetEnbID :: "64 word \<Rightarrow> EnbID" where
  "GetEnbID ident = ucast (drop_bit 8 (ident AND mask20))"

definition GetECI :: "64 word \<Rightarrow> ECI" where
  "GetECI ident = ucast (ident AND mask28)"

section \<open>UE registry (pkg/store/ues/ues.go)\<close>

text \<open>
  The registry holds pointers (\<open>map[types.IMSI]*model.UE\<close>): the UEs live in a heap of
  their own, \<open>ueHeap\<close>, and the map, the lists the registry returns and the events it sends
  carry addresses.  The heap is total; \<open>nextAddr\<close> is the next address \<open>&model.UE{...}\<close>
  allocates.  A \<open>UECell\<close> is reachable through its UE only and is kept inside it.

  The Go map is an association list with one entry per key: its order stands for the
  order in which \<open>range\<close> visits the map, which Go leaves unspecified.

  A channel is a number.  Every send is recorded in \<open>sent\<close>, in the order it is made, and
  every \<open>close\<close> in \<open>closedChans\<close>; that a send blocks until a receiver is ready is not
  modelled.  The mutexes are left out: every operation runs as one step.

  \<open>float64\<close> is read as a real number; no claim depends on floating-point rounding.
\<close>

type_synonym CRNTI = "32 word"
type_synonym IMSI = nat
type_synonym float64 = real
type_synonym addr = nat
type_synonym chan = nat

datatype error = NotFound | NotSupported | Invalid | Unknown | Panic

record Coordinate =
  Lat :: float64
  Lng :: float64

record UECell =
  ID :: GEnbID
  ECGI :: ECGI
  Strength :: float64

record UE =
  IMSI :: IMSI
  Type :: string
  Location :: Coordinate
  Rotation :: "32 word"
  Cell :: UECell
  CRNTI :: CRNTI
  Cells :: "UECell list"
  IsAdmitted :: bool

record UEEvent =
  EventUE :: addr
  EventType :: "8 word"

record WatchOptions =
  Replay :: bool
  Monitor :: bool

definition minIMSI :: nat where
  "minIMSI = 1000000"

definition maxIMSI :: nat where
  "maxIMSI = 9999999"

definition NONE :: "8 word" where
  "NONE = 0"

definition ADDED :: "8 word" where
  "ADDED = 1"

definition UPDATED :: "8 word" where
  "UPDATED = 2"

definition DELETED :: "8 word" where
  "DELETED = 3"

record ueRegistry =
  ues :: "(IMSI \<times> addr) list"
  watchers :: "chan list"
  ueHeap :: "addr \<Rightarrow> UE"
  nextAddr :: addr
  sent :: "(chan \<times> UEEvent) list"
  closedChans :: "chan list"

text \<open>
  What one iteration of \<open>CreateUEs\<close> takes from outside: the sample \<open>rand.Int63n\<close> reduces
  for the first IMSI, the sample for the IMSI drawn again after a collision, the cell
  \<open>cellStore.GetRandomCell()\<close> answers (the cell store is not among the sources and is
  taken to hold a cell), and the value of \<open>rand.Float64()\<close>.
\<close>

record draws =
  imsiSample :: nat
  retrySample :: nat
  cellDraw :: ECGI
  floatDraw :: float64

text \<open>\<open>rand.Int63n n\<close> returns the accepted 63-bit sample modulo \<open>n\<close>.\<close>

definition Int63n :: "nat \<Rightarrow> nat \<Rightarrow> nat" where
  "Int63n n sample = sample mod n"

definition send :: "chan \<Rightarrow> UEEvent \<Rightarrow> ueRegistry \<Rightarrow> ueRegistry" where
  "send ch event r = r\<lparr>sent := sent r @ [(ch, event)]\<rparr>"

fun notify_loop :: "chan list \<Rightarrow> UEEvent \<Rightarrow> ueRegistry \<Rightarrow> ueRegistry" where
  "notify_loop [] event r = r"
| "notify_loop (watcher # rest) event r = notify_loop rest event (send watcher event r)"

definition notify :: "addr \<Rightarrow> 8 word \<Rightarrow> ueRegistry \<Rightarrow> ueRegistry" where
  "notify ue eventType r =
     notify_loop (watchers r) \<lparr>EventUE = ue, EventType = eventType\<rparr> r"

definition CreateUEs_body :: "(nat \<Rightarrow> draws) \<Rightarrow> nat \<Rightarrow> ueRegistry \<Rightarrow> ueRegistry" where
  "CreateUEs_body rnd i r =
    (let imsi0 = Int63n (maxIMSI - minIMSI) (imsiSample (rnd i)) + minIMSI;
         imsi = (if map_of (ues r) imsi0 \<noteq> None
                 then Int63n (maxIMSI - minIMSI) (retrySample (rnd i)) + minIMSI
                 else imsi0);
         ecgi = cellDraw (rnd i);
         ue = \<lparr>IMSI = imsi, Type = ''phone'', Location = \<lparr>Lat = 0, Lng = 0\<rparr>,
               Rotation = 0,
               Cell = \<lparr>ID = ecgi, ECGI = ecgi, Strength = floatDraw (rnd i) * 100\<rparr>,
               CRNTI = word_of_nat (90125 + i), Cells = [], IsAdmitted = False\<rparr>;
         a = nextAddr r
     in r\<lparr>ueHeap := (ueHeap r)(a := ue), nextAddr := Suc a,
          ues := AList.update imsi a (ues r)\<rparr>)"

text \<open>\<open>for i := uint(0); i < count; i++\<close>: the third argument counts the iterations left.\<close>

fun CreateUEs_loop :: "(nat \<Rightarrow> draws) \<Rightarrow> nat \<Rightarrow> nat \<Rightarrow> ueRegistry \<Rightarrow> ueRegistry" where
  "CreateUEs_loop rnd i 0 r = r"
| "CreateUEs_loop rnd i (Suc k) r = CreateUEs_loop rnd (Suc i) k (CreateUEs_body rnd i r)"

definition CreateUEs :: "(nat \<Rightarrow> draws) \<Rightarrow> nat \<Rightarrow> ueRegistry \<Rightarrow> ueRegistry" where
  "CreateUEs rnd count r = CreateUEs_loop rnd 0 count r"

definition zeroUE :: UE where
  "zeroUE = \<lparr>IMSI = 0, Type = [], Location = \<lparr>Lat = 0, Lng = 0\<rparr>, Rotation = 0,
     Cell = \<lparr>ID = 0, ECGI = 0, Strength = 0\<rparr>, CRNTI = 0, Cells = [], IsAdmitted = False\<rparr>"

definition emptyRegistry :: ueRegistry where
  "emptyRegistry = \<lparr>ues = [], watchers = [], ueHeap = (\<lambda>_. zeroUE), nextAddr = 0,
     sent = [], closedChans = []\<rparr>"

definition NewUERegistry :: "(nat \<Rightarrow> draws) \<Rightarrow> nat \<Rightarrow> ueRegistry" where
  "NewUERegistry rnd count = CreateUEs rnd count emptyRegistry"

definition GetUECount :: "ueRegistry \<Rightarrow> nat" where
  "GetUECount r = length (ues r)"

definition GetUE :: "IMSI \<Rightarrow> ueRegistry \<Rightarrow> error + addr" where
  "GetUE imsi r = (case map_of (ues r) imsi of Some node \<Rightarrow> Inr node | None \<Rightarrow> Inl NotFound)"

definition DestroyUE :: "IMSI \<Rightarrow> ueRegistry \<Rightarrow> (error + addr) \<times> ueRegistry" where
  "DestroyUE imsi r =
     (case map_of (ues r) imsi of
        Some ue \<Rightarrow> (Inr ue, notify ue DELETED (r\<lparr>ues := AList.delete imsi (ues r)\<rparr>))
      | None \<Rightarrow> (Inl NotFound, r))"

text \<open>
  \<open>removeSomeUEs\<close> ranges over the map and destroys the key it is at: the keys visited are
  those of the map as it was on entry.
\<close>

fun removeSomeUEs_loop :: "int \<Rightarrow> IMSI list \<Rightarrow> ueRegistry \<Rightarrow> ueRegistry" where
  "removeSomeUEs_loop c [] r = r"
| "removeSomeUEs_loop c (imsi # rest) r =
     (if c = 0 then r else removeSomeUEs_loop (c - 1) rest (snd (DestroyUE imsi r)))"

definition removeSomeUEs :: "int \<Rightarrow> ueRegistry \<Rightarrow> ueRegistry" where
  "removeSomeUEs count r = removeSomeUEs_loop count (map fst (ues r)) r"

text \<open>
  \<open>delta := len(r.ues) - int(count)\<close> on 64-bit integers: the subtraction wraps and
  \<open>delta\<close> is read as signed.
\<close>

definition SetUECount :: "(nat \<Rightarrow> draws) \<Rightarrow> nat \<Rightarrow> ueRegistry \<Rightarrow> ueRegistry" where
  "SetUECount rnd count r =
     (let delta = (word_of_nat (length (ues r)) :: 64 word) - word_of_nat count
      in if sint delta < 0 then CreateUEs rnd (unat (- delta)) r
         else if 0 < sint delta then removeSomeUEs (sint delta) r
         else r)"

fun ListAllUEs_loop :: "(IMSI \<times> addr) list \<Rightarrow> addr list \<Rightarrow> addr list" where
  "ListAllUEs_loop [] list = list"
| "ListAllUEs_loop ((imsi, ue) # rest) list = ListAllUEs_loop rest (list @ [ue])"

definition ListAllUEs :: "ueRegistry \<Rightarrow> addr list" where
  "ListAllUEs r = ListAllUEs_loop (ues r) []"

definition MoveUE :: "IMSI \<Rightarrow> ECGI \<Rightarrow> float64 \<Rightarrow> ueRegistry \<Rightarrow> error option \<times> ueRegistry" where
  "MoveUE imsi ecgi strength r =
     (case map_of (ues r) imsi of
        Some ue \<Rightarrow>
          (None,
           notify ue UPDATED
             (r\<lparr>ueHeap := (ueHeap r)
                  (ue := (ueHeap r ue)\<lparr>Cell := (Cell (ueHeap r ue))
                                           \<lparr>ECGI := ecgi, Strength := strength\<rparr>\<rparr>)\<rparr>))
      | None \<Rightarrow> (Some NotFound, r))"

fun ListUEs_loop :: "ueRegistry \<Rightarrow> ECGI \<Rightarrow> (IMSI \<times> addr) list \<Rightarrow> addr list \<Rightarrow> addr list" where
  "ListUEs_loop r ecgi [] list = list"
| "ListUEs_loop r ecgi ((imsi, ue) # rest) list =
     ListUEs_loop r ecgi rest
       (if ECGI (Cell (ueHeap r ue)) = ecgi then list @ [ue] else list)"

definition ListUEs :: "ECGI \<Rightarrow> ueRegistry \<Rightarrow> addr list" where
  "ListUEs ecgi r = ListUEs_loop r ecgi (ues r) []"

fun replay_loop :: "chan \<Rightarrow> (IMSI \<times> addr) list \<Rightarrow> ueRegistry \<Rightarrow> ueRegistry" where
  "replay_loop ch [] r = r"
| "replay_loop ch ((imsi, ue) # rest) r =
     replay_loop ch rest (send ch \<lparr>EventUE = ue, EventType = NONE\<rparr> r)"

definition close :: "chan \<Rightarrow> ueRegistry \<Rightarrow> ueRegistry" where
  "close ch r = r\<lparr>closedChans := closedChans r @ [ch]\<rparr>"

text \<open>
  \<open>WatchUEs\<close> starts a goroutine and returns; the model runs the goroutine's body at the
  call.  \<open>options\<close> is the variadic argument.
\<close>

definition WatchUEs :: "chan \<Rightarrow> WatchOptions list \<Rightarrow> ueRegistry \<Rightarrow> ueRegistry" where
  "WatchUEs ch options r =
     (let monitor = (length options = 0 \<or> Monitor (hd options));
          replay = (length options > 0 \<and> Replay (hd options));
          r1 = (if monitor then r\<lparr>watchers := watchers r @ [ch]\<rparr> else r)
      in if replay
         then (let r2 = replay_loop ch (ues r1) r1
               in if \<not> monitor then close ch r2 else r2)
         else r1)"

text \<open>The IMSIs the registry holds lie in the band of \<open>minIMSI\<close> and \<open>maxIMSI\<close>.\<close>

definition inBand :: "ueRegistry \<Rightarrow> bool" where
  "inBand r = (\<forall>imsi \<in> fst ` set (ues r). minIMSI \<le> imsi \<and> imsi \<le> maxIMSI)"

subsection \<open>Concrete registries\<close>

text \<open>
  A random source that yields the sample 5 at every draw, and one that yields 6; the
  registry with the one UE created from the first; an empty registry with one monitoring
  watcher on channel 3.
\<close>

definition sameDraw :: "nat \<Rightarrow> draws" where
  "sameDraw i = \<lparr>imsiSample = 5, retrySample = 5, cellDraw = 17, floatDraw = 1 / 2\<rparr>"

definition otherDraw :: "nat \<Rightarrow> draws" where
  "otherDraw i = \<lparr>imsiSample = 6, retrySample = 6, cellDraw = 17, floatDraw = 1 / 2\<rparr>"

definition oneUE :: ueRegistry where
  "oneUE = CreateUEs sameDraw 1 emptyRegistry"

definition watched :: ueRegistry where
  "watched = WatchUEs 3 [\<lparr>Replay = False, Monitor = True\<rparr>] emptyRegistry"

section \<open>Indication builder (pkg/utils/indication/indication.go)\<close>

type_synonym bytes = "8 word list"

record Indication =
  reqID :: int
  ricInstanceID :: int
  ranFuncID :: int
  indicationHeader :: bytes
  indicationMessage :: bytes
  ricCallProcessID :: bytes

definition zeroIndication :: Indication where
  "zeroIndication = \<lparr>reqID = 0, ricInstanceID = 0, ranFuncID = 0, indicationHeader = [],
     indicationMessage = [], ricCallProcessID = []\<rparr>"

fun NewIndication_loop :: "(Indication \<Rightarrow> Indication) list \<Rightarrow> Indication \<Rightarrow> Indication" where
  "NewIndication_loop [] indication = indication"
| "NewIndication_loop (option # rest) indication = NewIndication_loop rest (option indication)"

definition NewIndication :: "(Indication \<Rightarrow> Indication) list \<Rightarrow> Indication" where
  "NewIndication options = NewIndication_loop options zeroIndication"

definition WithRequestID :: "int \<Rightarrow> Indication \<Rightarrow> Indication" where
  "WithRequestID v indication = indication\<lparr>reqID := v\<rparr>"

definition WithRanFuncID :: "int \<Rightarrow> Indication \<Rightarrow> Indication" where
  "WithRanFuncID v indication = indication\<lparr>ranFuncID := v\<rparr>"

definition WithRicInstanceID :: "int \<Rightarrow> Indication \<Rightarrow> Indication" where
  "WithRicInstanceID v indication = indication\<lparr>ricInstanceID := v\<rparr>"

definition WithIndicationHeader :: "bytes \<Rightarrow> Indication \<Rightarrow> Indication" where
  "WithIndicationHeader v indication = indication\<lparr>indicationHeader := v\<rparr>"

definition WithIndicationMessage :: "bytes \<Rightarrow> Indication \<Rightarrow> Indication" where
  "WithIndicationMessage v indication = indication\<lparr>indicationMessage := v\<rparr>"

datatype RicindicationType = RICINDICATION_TYPE_REPORT | RICINDICATION_TYPE_INSERT

text \<open>
  The indication message, one field per information element; the identifier, criticality
  and presence of each element are constants and are left out.
\<close>

record Ricindication =
  IndRicRequestorId :: int
  IndRicInstanceId :: int
  IndRanfunctionId :: int
  IndRicactionId :: int
  IndRicindicationSn :: int
  IndRicindicationType :: RicindicationType
  IndRicindicationHeader :: bytes
  IndRicindicationMessage :: bytes
  IndRiccallProcessId :: bytes

definition CreateIndication :: "Indication \<Rightarrow> Ricindication" where
  "CreateIndication indication =
     \<lparr>IndRicRequestorId = reqID indication, IndRicInstanceId = ricInstanceID indication,
      IndRanfunctionId = ranFuncID indication, IndRicactionId = 2, IndRicindicationSn = 3,
      IndRicindicationType = RICINDICATION_TYPE_REPORT,
      IndRicindicationHeader = indicationHeader indication,
      IndRicindicationMessage = indicationMessage indication,
      IndRiccallProcessId = ricCallProcessID indication\<rparr>"

section \<open>KPM service model (package kpm)\<close>

datatype RicactionType =
  RICACTION_TYPE_REPORT | RICACTION_TYPE_INSERT | RICACTION_TYPE_POLICY

datatype CauseRicrequest =
  CAUSE_RICREQUEST_ACTION_NOT_SUPPORTED | CAUSE_RICREQUEST_UNSPECIFIED

record RicactionToBeSetupItem =
  RicActionId :: int
  RicActionType :: RicactionType

text \<open>
  The decoded requests.  An identifier the request does not carry is \<open>None\<close>; the event
  trigger definition is the byte string the report period is read from.
\<close>

record RicsubscriptionRequest =
  RicRequestorId :: "int option"
  RicInstanceId :: "int option"
  RanfunctionId :: "int option"
  RicactionToBeSetupList :: "RicactionToBeSetupItem list"
  RiceventTriggerDefinition :: bytes

record RicsubscriptionDeleteRequest =
  DelRicRequestorId :: "int option"
  DelRicInstanceId :: "int option"
  DelRanfunctionId :: "int option"

text \<open>
  \<open>subutils.Subscription\<close>, the value the \<open>With...\<close> options of the subscription utilities
  fill in and the responses are built from.
\<close>

record subutils_Subscription =
  ReqID :: int
  RanFuncID :: int
  RicInstanceID :: int
  ActionsAccepted :: "int list"
  ActionsNotAdmitted :: "(int \<times> CauseRicrequest) list"
  Cause :: "CauseRicrequest option"

record RicsubscriptionResponse =
  RspRicRequestorId :: int
  RspRicInstanceId :: int
  RspRanfunctionId :: int
  RicactionsAdmitted :: "int list"
  RicactionsNotAdmitted :: "(int \<times> CauseRicrequest) list"

record RicsubscriptionFailure =
  FailRicRequestorId :: int
  FailRicInstanceId :: int
  FailRanfunctionId :: int
  FailCause :: "CauseRicrequest option"

record RicsubscriptionDeleteResponse =
  DelRspRicRequestorId :: int
  DelRspRicInstanceId :: int
  DelRspRanfunctionId :: int

record IndicationHeader =
  plmnID :: "32 word"
  gNbID :: nat
  sst :: string
  sd :: string
  plmnIDnrcgi :: "32 word"

text \<open>
  The service model as the handlers use it: the identity of the node and of the network,
  and the collaborators that are not among the sources, taken as they answer:
  \<open>getReportPeriod\<close> (a method of the client defined in another file), the validation each
  builder of a protocol message ends with (\<open>None\<close>: the message is valid), and the two
  encodings of the model plugin.
\<close>

record ServiceModel =
  GnbID :: int
  PlmnID :: "32 word"
  getReportPeriod :: "RicsubscriptionRequest \<Rightarrow> error + int"
  ValidateSubscriptionResponse :: "RicsubscriptionResponse \<Rightarrow> error option"
  ValidateSubscriptionFailure :: "RicsubscriptionFailure \<Rightarrow> error option"
  ValidateSubscriptionDeleteResponse :: "RicsubscriptionDeleteResponse \<Rightarrow> error option"
  ValidateIndication :: "Ricindication \<Rightarrow> error option"
  HeaderToAsn1Bytes :: "IndicationHeader \<Rightarrow> error + bytes"
  MessageToAsn1Bytes :: "32 word \<Rightarrow> error + bytes"

text \<open>
  Modelled from the spec: the Subscription Registry (pkg/store/subscriptions) is not among
  the sources.  The spec describes a keyed store from the triple (instance id, requester
  id, function id) to a Subscription record holding a handle to the owning session and a
  recurring-timer handle attached once the reporting task starts; lookup fails with
  NotFound on a miss and returns the record itself.  The records live in a heap,
  \<open>subHeap\<close>, and the store maps keys to addresses.

  Modelled from Go's \<open>time.Ticker\<close>: a ticker has a period and runs until \<open>Stop\<close>; a stopped
  ticker delivers no tick.
\<close>

type_synonym ID = "int \<times> int \<times> int"

record Ticker =
  period :: int
  running :: bool

record subscriptions_Subscription =
  SubID :: ID
  E2Channel :: chan
  Ticker :: "Ticker option"

text \<open>
  The state the handlers and the report task share: the Subscription Registry, the UE
  registry behind \<open>ServiceModel.UEs\<close>, and the indications pushed over the sessions, in
  the order they were sent.
\<close>

record kpm =
  Subscriptions :: "ID \<rightharpoonup> addr"
  subHeap :: "addr \<Rightarrow> subscriptions_Subscription"
  UEs :: ueRegistry
  delivered :: "(chan \<times> Ricindication) list"

definition NewID :: "int \<Rightarrow> int \<Rightarrow> int \<Rightarrow> ID" where
  "NewID instanceID requesterID functionID = (instanceID, requesterID, functionID)"

definition Subscriptions_Get :: "ID \<Rightarrow> kpm \<Rightarrow> error + addr" where
  "Subscriptions_Get subID st =
     (case Subscriptions st subID of Some sub \<Rightarrow> Inr sub | None \<Rightarrow> Inl NotFound)"

text \<open>
  Modelled from the spec: the request accessors and the response builders of the
  subscription utilities (pkg/utils/e2ap/subscription, subscriptiondelete) are not among
  the sources.  The spec says that a malformed request field yields an error and no
  response, that the success response lists the accepted action ids, and that the failure
  response carries the cause.
\<close>

definition subutils_GetRequesterID :: "RicsubscriptionRequest \<Rightarrow> error + int" where
  "subutils_GetRequesterID request =
     (case RicRequestorId request of None \<Rightarrow> Inl Invalid | Some v \<Rightarrow> Inr v)"

definition subutils_GetRanFunctionID :: "RicsubscriptionRequest \<Rightarrow> error + int" where
  "subutils_GetRanFunctionID request =
     (case RanfunctionId request of None \<Rightarrow> Inl Invalid | Some v \<Rightarrow> Inr v)"

definition subutils_GetRicInstanceID :: "RicsubscriptionRequest \<Rightarrow> error + int" where
  "subutils_GetRicInstanceID request =
     (case RicInstanceId request of None \<Rightarrow> Inl Invalid | Some v \<Rightarrow> Inr v)"

definition subdeleteutils_GetRequesterID :: "RicsubscriptionDeleteRequest \<Rightarrow> error + int" where
  "subdeleteutils_GetRequesterID request =
     (case DelRicRequestorId request of None \<Rightarrow> Inl Invalid | Some v \<Rightarrow> Inr v)"

definition subdeleteutils_GetRanFunctionID :: "RicsubscriptionDeleteRequest \<Rightarrow> error + int" where
  "subdeleteutils_GetRanFunctionID request =
     (case DelRanfunctionId request of None \<Rightarrow> Inl Invalid | Some v \<Rightarrow> Inr v)"

definition subdeleteutils_GetRicInstanceID :: "RicsubscriptionDeleteRequest \<Rightarrow> error + int" where
  "subdeleteutils_GetRicInstanceID request =
     (case DelRicInstanceId request of None \<Rightarrow> Inl Invalid | Some v \<Rightarrow> Inr v)"

definition BuildSubscriptionFailure ::
  "ServiceModel \<Rightarrow> subutils_Subscription \<Rightarrow> error + RicsubscriptionFailure" where
  "BuildSubscriptionFailure sm subscription =
     (let pdu = \<lparr>FailRicRequestorId = ReqID subscription,
                 FailRicInstanceId = RicInstanceID subscription,
                 FailRanfunctionId = RanFuncID subscription,
                 FailCause = Cause subscription\<rparr>
      in case ValidateSubscriptionFailure sm pdu of Some e \<Rightarrow> Inl e | None \<Rightarrow> Inr pdu)"

definition BuildSubscriptionResponse ::
  "ServiceModel \<Rightarrow> subutils_Subscription \<Rightarrow> error + RicsubscriptionResponse" where
  "BuildSubscriptionResponse sm subscription =
     (let pdu = \<lparr>RspRicRequestorId = ReqID subscription,
                 RspRicInstanceId = RicInstanceID subscription,
                 RspRanfunctionId = RanFuncID subscription,
                 RicactionsAdmitted = ActionsAccepted subscription,
                 RicactionsNotAdmitted = ActionsNotAdmitted subscription\<rparr>
      in case ValidateSubscriptionResponse sm pdu of Some e \<Rightarrow> Inl e | None \<Rightarrow> Inr pdu)"

definition BuildSubscriptionDeleteResponse ::
  "ServiceModel \<Rightarrow> int \<Rightarrow> int \<Rightarrow> int \<Rightarrow> error + RicsubscriptionDeleteResponse" where
  "BuildSubscriptionDeleteResponse sm requesterID functionID instanceID =
     (let pdu = \<lparr>DelRspRicRequestorId = requesterID, DelRspRicInstanceId = instanceID,
                 DelRspRanfunctionId = functionID\<rparr>
      in case ValidateSubscriptionDeleteResponse sm pdu of Some e \<Rightarrow> Inl e | None \<Rightarrow> Inr pdu)"

text \<open>
  \<open>indication.Build()\<close>: the message \<open>CreateIndication\<close> assembles, then its validation.
\<close>

definition Build :: "ServiceModel \<Rightarrow> Indication \<Rightarrow> error + Ricindication" where
  "Build sm indication =
     (let pdu = CreateIndication indication
      in case ValidateIndication sm pdu of Some e \<Rightarrow> Inl e | None \<Rightarrow> Inr pdu)"

subsection \<open>Subscribe\<close>

text \<open>
  A handler answers with a response, a failure and an error, as the Go functions do.
\<close>

type_synonym ('r, 'f) reply = "'r option \<times> 'f option \<times> error option"

text \<open>
  The loop over the requested actions: report actions are appended to the accepted list,
  insert and policy actions are entered in the map of actions not admitted.
\<close>

fun actions_loop ::
  "RicactionToBeSetupItem list \<Rightarrow> int list \<Rightarrow> (int \<times> CauseRicrequest) list \<Rightarrow>
     int list \<times> (int \<times> CauseRicrequest) list" where
  "actions_loop [] ricActionsAccepted ricActionsNotAdmitted =
     (ricActionsAccepted, ricActionsNotAdmitted)"
| "actions_loop (action # rest) ricActionsAccepted ricActionsNotAdmitted =
     (let actionID = RicActionId action;
          actionType = RicActionType action;
          accepted = (if actionType = RICACTION_TYPE_REPORT
                      then ricActionsAccepted @ [actionID] else ricActionsAccepted);
          notAdmitted = (if actionType = RICACTION_TYPE_INSERT \<or>
                            actionType = RICACTION_TYPE_POLICY
                         then AList.update actionID CAUSE_RICREQUEST_ACTION_NOT_SUPPORTED
                                ricActionsNotAdmitted
                         else ricActionsNotAdmitted)
      in actions_loop rest accepted notAdmitted)"

text \<open>
  \<open>RICSubscription\<close> returns its reply, the argument of the goroutine it starts (the
  report interval and the subscription handed to \<open>reportIndication\<close>; \<open>None\<close> when it
  starts none), and the shared state.  Where the failure cannot be built after the report
  period could not be read, the Go code returns what the builder returned beside its
  error, with a nil error.
\<close>

definition RICSubscription ::
  "ServiceModel \<Rightarrow> RicsubscriptionRequest \<Rightarrow> kpm \<Rightarrow>
     ((RicsubscriptionResponse, RicsubscriptionFailure) reply \<times>
      (int \<times> subutils_Subscription) option) \<times> kpm" where
  "RICSubscription sm request st =
   (let actionList = RicactionToBeSetupList request in
    case subutils_GetRequesterID request of
      Inl e \<Rightarrow> (((None, None, Some e), None), st)
    | Inr requesterID \<Rightarrow>
    (case subutils_GetRanFunctionID request of
      Inl e \<Rightarrow> (((None, None, Some e), None), st)
    | Inr functionID \<Rightarrow>
    (case subutils_GetRicInstanceID request of
      Inl e \<Rightarrow> (((None, None, Some e), None), st)
    | Inr instanceID \<Rightarrow>
    (let (ricActionsAccepted, ricActionsNotAdmitted) = actions_loop actionList [] [] in
     if length ricActionsAccepted = 0
     then (case BuildSubscriptionFailure sm
                  \<lparr>ReqID = requesterID, RanFuncID = functionID, RicInstanceID = instanceID,
                   ActionsAccepted = [], ActionsNotAdmitted = [],
                   Cause = Some CAUSE_RICREQUEST_ACTION_NOT_SUPPORTED\<rparr> of
             Inl e \<Rightarrow> (((None, None, Some e), None), st)
           | Inr subscriptionFailure \<Rightarrow> (((None, Some subscriptionFailure, None), None), st))
     else (case getReportPeriod sm request of
             Inl e \<Rightarrow>
               (case BuildSubscriptionFailure sm
                       \<lparr>ReqID = requesterID, RanFuncID = functionID,
                        RicInstanceID = instanceID, ActionsAccepted = [],
                        ActionsNotAdmitted = [],
                        Cause = Some CAUSE_RICREQUEST_UNSPECIFIED\<rparr> of
                  Inl e' \<Rightarrow> (((None, None, None), None), st)
                | Inr subscriptionFailure \<Rightarrow>
                    (((None, Some subscriptionFailure, None), None), st))
           | Inr reportInterval \<Rightarrow>
               (let subscription =
                      \<lparr>ReqID = requesterID, RanFuncID = functionID,
                       RicInstanceID = instanceID, ActionsAccepted = ricActionsAccepted,
                       ActionsNotAdmitted = ricActionsNotAdmitted, Cause = None\<rparr>
                in case BuildSubscriptionResponse sm subscription of
                     Inl e \<Rightarrow> (((None, None, Some e), None), st)
                   | Inr subscriptionResponse \<Rightarrow>
                       (((Some subscriptionResponse, None, None),
                         Some (reportInterval, subscription)), st)))))))"

subsection \<open>The report task\<close>

text \<open>
  What \<open>reportIndication\<close> holds when it enters its loop: the subscription it was given,
  the two byte strings it encoded, and \<open>sub\<close>, the record it got from the registry.
\<close>

record reportTask =
  subscription :: subutils_Subscription
  indicationHeaderAsn1Bytes :: bytes
  indicationMessageBytes :: bytes
  sub :: addr

text \<open>
  The part of \<open>reportIndication\<close> before the loop.  \<open>strconv.ParseUint\<close> of the printed
  \<open>GnbID\<close> fails on a negative number; \<open>NewUint24\<close> keeps the low 24 bits;
  \<open>UEs.Len\<close> is the population of the UE registry, converted to \<open>int32\<close>;
  \<open>time.NewTicker\<close> panics on a period that is not positive.  An error leaves the shared
  state as it was.
\<close>

definition reportIndication_start ::
  "ServiceModel \<Rightarrow> int \<Rightarrow> subutils_Subscription \<Rightarrow> kpm \<Rightarrow> error + (reportTask \<times> kpm)" where
  "reportIndication_start sm interval subscr st =
   (let subID = NewID (RicInstanceID subscr) (ReqID subscr) (RanFuncID subscr) in
    if GnbID sm < 0 then Inl Invalid
    else
    (let header = \<lparr>plmnID = take_bit 24 (PlmnID sm), gNbID = nat (GnbID sm), sst = ''1'',
                   sd = ''SD1'', plmnIDnrcgi = take_bit 24 (PlmnID sm)\<rparr> in
     case HeaderToAsn1Bytes sm header of
       Inl e \<Rightarrow> Inl e
     | Inr headerBytes \<Rightarrow>
     (case MessageToAsn1Bytes sm (word_of_nat (GetUECount (UEs st))) of
       Inl e \<Rightarrow> Inl e
     | Inr messageBytes \<Rightarrow>
     (case Subscriptions_Get subID st of
       Inl e \<Rightarrow> Inl e
     | Inr a \<Rightarrow>
       if interval \<le> 0 then Inl Panic
       else Inr (\<lparr>subscription = subscr, indicationHeaderAsn1Bytes = headerBytes,
                  indicationMessageBytes = messageBytes, sub = a\<rparr>,
                 st\<lparr>subHeap := (subHeap st)
                      (a := (subHeap st a)
                         \<lparr>Ticker := Some \<lparr>period = interval, running = True\<rparr>\<rparr>)\<rparr>)))))"

text \<open>
  What the loop waits for, and what happens around it: the ticker fires (the event says
  how the session answers the send that follows), the context of the session is done, or
  the UE registry changes.  A stopped ticker delivers no tick.  The task is then either
  still waiting in its \<open>select\<close> or has returned.
\<close>

datatype event = TickerFires "error option" | ContextDone | UEsBecome ueRegistry

datatype status = Waiting | Returned "error option"

fun report_loop :: "ServiceModel \<Rightarrow> reportTask \<Rightarrow> event list \<Rightarrow> kpm \<Rightarrow> status \<times> kpm" where
  "report_loop sm t [] st = (Waiting, st)"
| "report_loop sm t (UEsBecome r # evs) st = report_loop sm t evs (st\<lparr>UEs := r\<rparr>)"
| "report_loop sm t (TickerFires sendResult # evs) st =
     (case Ticker (subHeap st (sub t)) of
        None \<Rightarrow> (Returned (Some Panic), st)
      | Some ticker \<Rightarrow>
          if \<not> running ticker then report_loop sm t evs st
          else
            (let indication = NewIndication
                   [WithRicInstanceID (RicInstanceID (subscription t)),
                    WithRanFuncID (RanFuncID (subscription t)),
                    WithRequestID (ReqID (subscription t)),
                    WithIndicationHeader (indicationHeaderAsn1Bytes t),
                    WithIndicationMessage (indicationMessageBytes t)]
             in case Build sm indication of
                  Inl e \<Rightarrow> (Returned (Some e), st)
                | Inr ricIndication \<Rightarrow>
                    (case sendResult of
                       Some e \<Rightarrow> (Returned (Some e), st)
                     | None \<Rightarrow>
                         report_loop sm t evs
                           (st\<lparr>delivered := delivered st @
                                 [(E2Channel (subHeap st (sub t)), ricIndication)]\<rparr>))))"
| "report_loop sm t (ContextDone # evs) st =
     (case Ticker (subHeap st (sub t)) of
        None \<Rightarrow> (Returned (Some Panic), st)
      | Some ticker \<Rightarrow>
          (Returned None,
           st\<lparr>subHeap := (subHeap st)
                (sub t := (subHeap st (sub t))\<lparr>Ticker := Some (ticker\<lparr>running := False\<rparr>)\<rparr>)\<rparr>))"

definition reportIndication ::
  "ServiceModel \<Rightarrow> int \<Rightarrow> subutils_Subscription \<Rightarrow> event list \<Rightarrow> kpm \<Rightarrow> status \<times> kpm" where
  "reportIndication sm interval subscr evs st =
     (case reportIndication_start sm interval subscr st of
        Inl e \<Rightarrow> (Returned (Some e), st)
      | Inr (t, st1) \<Rightarrow> report_loop sm t evs st1)"

subsection \<open>Control, connection update and subscription delete\<close>

definition E2ConnectionUpdate :: "ServiceModel \<Rightarrow> (unit, unit) reply" where
  "E2ConnectionUpdate sm = (None, None, Some NotSupported)"

definition RICControl :: "ServiceModel \<Rightarrow> (unit, unit) reply" where
  "RICControl sm = (None, None, Some NotSupported)"

text \<open>
  \<open>sub.Ticker.Stop()\<close> on a record whose ticker was never attached dereferences nil.
\<close>

definition RICSubscriptionDelete ::
  "ServiceModel \<Rightarrow> RicsubscriptionDeleteRequest \<Rightarrow> kpm \<Rightarrow>
     (RicsubscriptionDeleteResponse, unit) reply \<times> kpm" where
  "RICSubscriptionDelete sm request st =
   (case subdeleteutils_GetRequesterID request of
      Inl e \<Rightarrow> ((None, None, Some e), st)
    | Inr requesterID \<Rightarrow>
    (case subdeleteutils_GetRanFunctionID request of
      Inl e \<Rightarrow> ((None, None, Some e), st)
    | Inr functionID \<Rightarrow>
    (case subdeleteutils_GetRicInstanceID request of
      Inl e \<Rightarrow> ((None, None, Some e), st)
    | Inr instanceID \<Rightarrow>
    (let subID = NewID instanceID requesterID functionID in
     case Subscriptions_Get subID st of
       Inl e \<Rightarrow> ((None, None, Some e), st)
     | Inr a \<Rightarrow>
     (case BuildSubscriptionDeleteResponse sm requesterID functionID instanceID of
        Inl e \<Rightarrow> ((None, None, Some e), st)
      | Inr subDeleteResponse \<Rightarrow>
      (case Ticker (subHeap st a) of
         None \<Rightarrow> ((None, None, Some Panic), st)
       | Some ticker \<Rightarrow>
           ((Some subDeleteResponse, None, None),
            st\<lparr>subHeap := (subHeap st)
                 (a := (subHeap st a)\<lparr>Ticker := Some (ticker\<lparr>running := False\<rparr>)\<rparr>)\<rparr>)))))))"

subsection \<open>Concrete service model, requests and states\<close>

text \<open>
  A service model whose collaborators always succeed: the report period is 1000 when the
  event trigger definition is not empty, every message validates, the header is encoded
  as the low byte of the PLMN identity and the message as the low byte of the UE count.
  A request with one report and one insert action, one with an insert and a policy
  action, the delete request for the same identifiers, and the subscription
  \<open>RICSubscription\<close> hands to the report task for the first request.  A state whose
  Subscription Registry is empty, and one that holds a record for the key of the requests,
  on session 7, with no ticker attached yet; the UE registry of both holds one UE.
\<close>

definition sm0 :: ServiceModel where
  "sm0 = \<lparr>GnbID = 99, PlmnID = 0x138426,
     getReportPeriod =
       (\<lambda>request. if RiceventTriggerDefinition request = [] then Inl Invalid else Inr 1000),
     ValidateSubscriptionResponse = (\<lambda>pdu. None),
     ValidateSubscriptionFailure = (\<lambda>pdu. None),
     ValidateSubscriptionDeleteResponse = (\<lambda>pdu. None),
     ValidateIndication = (\<lambda>pdu. None),
     HeaderToAsn1Bytes = (\<lambda>header. Inr [ucast (plmnID header)]),
     MessageToAsn1Bytes = (\<lambda>n. Inr [ucast n])\<rparr>"

definition req0 :: RicsubscriptionRequest where
  "req0 = \<lparr>RicRequestorId = Some 1, RicInstanceId = Some 3, RanfunctionId = Some 2,
     RicactionToBeSetupList =
       [\<lparr>RicActionId = 10, RicActionType = RICACTION_TYPE_REPORT\<rparr>,
        \<lparr>RicActionId = 11, RicActionType = RICACTION_TYPE_INSERT\<rparr>],
     RiceventTriggerDefinition = [1]\<rparr>"

definition reqUnsupported :: RicsubscriptionRequest where
  "reqUnsupported = \<lparr>RicRequestorId = Some 1, RicInstanceId = Some 3, RanfunctionId = Some 2,
     RicactionToBeSetupList =
       [\<lparr>RicActionId = 11, RicActionType = RICACTION_TYPE_INSERT\<rparr>,
        \<lparr>RicActionId = 12, RicActionType = RICACTION_TYPE_POLICY\<rparr>],
     RiceventTriggerDefinition = [1]\<rparr>"

definition del0 :: RicsubscriptionDeleteRequest where
  "del0 = \<lparr>DelRicRequestorId = Some 1, DelRicInstanceId = Some 3, DelRanfunctionId = Some 2\<rparr>"

definition sub0 :: subutils_Subscription where
  "sub0 = \<lparr>ReqID = 1, RanFuncID = 2, RicInstanceID = 3, ActionsAccepted = [10],
     ActionsNotAdmitted = [(11, CAUSE_RICREQUEST_ACTION_NOT_SUPPORTED)], Cause = None\<rparr>"

definition kpm0 :: kpm where
  "kpm0 = \<lparr>Subscriptions = Map.empty,
     subHeap = (\<lambda>a. \<lparr>SubID = (0, 0, 0), E2Channel = 0, Ticker = None\<rparr>),
     UEs = oneUE, delivered = []\<rparr>"

definition kpm1 :: kpm where
  "kpm1 = \<lparr>Subscriptions = [NewID 3 1 2 \<mapsto> 0],
     subHeap = (\<lambda>a. \<lparr>SubID = NewID 3 1 2, E2Channel = 7, Ticker = None\<rparr>),
     UEs = oneUE, delivered = []\<rparr>"

text \<open>
  The task and the state \<open>reportIndication\<close> enters its loop with, when started for \<open>sub0\<close>
  with period 1000 in \<open>kpm1\<close>: the ticker is attached and runs.
\<close>

definition task0 :: reportTask where
  "task0 = \<lparr>subscription = sub0, indicationHeaderAsn1Bytes = [0x26],
     indicationMessageBytes = [1], sub = 0\<rparr>"

definition kpm2 :: kpm where
  "kpm2 = kpm1\<lparr>subHeap := (subHeap kpm1)
     (0 := \<lparr>SubID = NewID 3 1 2, E2Channel = 7,
            Ticker = Some \<lparr>period = 1000, running = True\<rparr>\<rparr>)\<rparr>"

text \<open>
  The service model \<open>sm0\<close> with a model plugin that fails to encode the indication
  header.
\<close>

definition smHeaderFails :: ServiceModel where
  "smHeaderFails = sm0\<lparr>HeaderToAsn1Bytes := (\<lambda>header. Inl Invalid)\<rparr>"

subsection \<open>The report loop as the spec words it\<close>


section \<open>Round trips of the cell identities\<close>

lemma mask28_is_mask: "mask28 = mask 28"
  by (simp add: mask28_def mask_eq_exp_minus_1)

lemma mask20_is_shifted_mask: "mask20 = push_bit 8 (mask 20)"
  by (simp add: mask20_def mask_eq_exp_minus_1 push_bit_eq_mult)

lemma low_byte_is_mask: "(0xff :: 64 word) = mask 8"
  by (simp add: mask_eq_exp_minus_1)

lemma bit_below_bound: "e < 2 ^ k \<Longrightarrow> bit (e :: 'a::len word) n \<Longrightarrow> n < k"
  by (metis bit_take_bit_iff less_mask_eq take_bit_eq_mask)

lemma GetPlmnID_ToECGI: "GetPlmnID (ToECGI p e) = p"
  unfolding GetPlmnID_def ToECGI_def mask28_is_mask
  by (rule bit_word_eqI) (auto simp add: bit_simps)

lemma GetECI_ToECGI:
  assumes "e < 2 ^ 28"
  shows "GetECI (ToECGI p e) = e"
proof -
  have small: "\<And>n. bit e n \<Longrightarrow> n < 28"
    using assms bit_below_bound by blast
  show ?thesis
    unfolding GetECI_def ToECGI_def mask28_is_mask
    by (rule bit_word_eqI) (auto simp add: bit_simps dest: small)
qed

lemma GetEnbID_ToECI:
  assumes "b < 2 ^ 20"
  shows "GetEnbID (ucast (ToECI b c)) = b"
proof -
  have small: "\<And>n. bit b n \<Longrightarrow> n < 20"
    using assms bit_below_bound by blast
  have byte: "\<And>n. bit c n \<Longrightarrow> n < 8"
    using bit_imp_le_length by fastforce
  show ?thesis
    unfolding GetEnbID_def ToECI_def mask20_is_shifted_mask
    by (rule bit_word_eqI) (auto simp add: bit_simps dest: small byte)
qed

lemma GetCellID_ToECI: "GetCellID (ucast (ToECI b c)) = c"
  unfolding GetCellID_def ToECI_def low_byte_is_mask
  by (rule bit_word_eqI) (auto simp add: bit_simps)

text \<open>
  Claim C10.  The conversions round-trip: for every PlmnID \<open>p\<close> and every ECI \<open>e\<close> below
  \<open>2 ^ 28\<close>, \<open>GetPlmnID\<close> and \<open>GetECI\<close> recover \<open>p\<close> and \<open>e\<close> from \<open>ToECGI p e\<close>; for
  every EnbID \<open>b\<close> below \<open>2 ^ 20\<close> and every CellID \<open>c\<close>, \<open>GetEnbID\<close> and \<open>GetCellID\<close>
  recover \<open>b\<close> and \<open>c\<close> from \<open>uint64 (ToECI b c)\<close>.
\<close>

theorem cell_identity_round_trip:
  "(e < 2 ^ 28 \<longrightarrow> GetPlmnID (ToECGI p e) = p \<and> GetECI (ToECGI p e) = e) \<and>
   (b < 2 ^ 20 \<longrightarrow> GetEnbID (ucast (ToECI b c)) = b \<and> GetCellID (ucast (ToECI b c)) = c)"
  by (simp add: GetPlmnID_ToECGI GetECI_ToECGI GetEnbID_ToECI GetCellID_ToECI)

theorem cell_identity_round_trip_witness:
  "(0x123456 :: ECI) < 2 ^ 28 \<and> GetPlmnID (ToECGI 0x314159 0x123456) = 0x314159 \<and>
   GetECI (ToECGI 0x314159 0x123456) = 0x123456 \<and>
   (0xabcde :: EnbID) < 2 ^ 20 \<and> GetEnbID (ucast (ToECI 0xabcde 0x7f)) = 0xabcde \<and>
   GetCellID (ucast (ToECI 0xabcde 0x7f)) = 0x7f"
  using cell_identity_round_trip [of "0x123456" "0x314159" "0xabcde" "0x7f"]
  by simp

section \<open>UE registry: events, lists and creation\<close>

lemma notify_loop_sent:
  "notify_loop chs event r = r\<lparr>sent := sent r @ map (\<lambda>ch. (ch, event)) chs\<rparr>"
  by (induction chs arbitrary: r) (simp_all add: send_def)

lemma notify_sent:
  "notify ue eventType r =
     r\<lparr>sent := sent r @ map (\<lambda>ch. (ch, \<lparr>EventUE = ue, EventType = eventType\<rparr>)) (watchers r)\<rparr>"
  by (simp add: notify_def notify_loop_sent)

lemma replay_loop_sent:
  "replay_loop ch xs r =
     r\<lparr>sent := sent r @ map (\<lambda>(imsi, ue). (ch, \<lparr>EventUE = ue, EventType = NONE\<rparr>)) xs\<rparr>"
  by (induction xs arbitrary: r) (auto simp add: send_def)

lemma ListAllUEs_loop_append: "ListAllUEs_loop xs list = list @ map snd xs"
  by (induction xs arbitrary: list) auto

lemma ListAllUEs_refs: "ListAllUEs r = map snd (ues r)"
  by (simp add: ListAllUEs_def ListAllUEs_loop_append)

lemma ListUEs_loop_append:
  "ListUEs_loop r ecgi xs list =
     list @ filter (\<lambda>ue. ECGI (Cell (ueHeap r ue)) = ecgi) (map snd xs)"
  by (induction xs arbitrary: list) auto

lemma ListUEs_refs:
  "ListUEs ecgi r = filter (\<lambda>ue. ECGI (Cell (ueHeap r ue)) = ecgi) (map snd (ues r))"
  by (simp add: ListUEs_def ListUEs_loop_append)

lemma CreateUEs_loop_numeral:
  "CreateUEs_loop rnd i (numeral n) r =
     CreateUEs_loop rnd (Suc i) (pred_numeral n) (CreateUEs_body rnd i r)"
  by (simp add: numeral_eq_Suc)

text \<open>Creation sends nothing: no watcher hears of a UE that \<open>CreateUEs\<close> adds.\<close>

lemma CreateUEs_loop_silent:
  "sent (CreateUEs_loop rnd i k r) = sent r \<and> watchers (CreateUEs_loop rnd i k r) = watchers r"
  by (induction k arbitrary: i r) (simp_all add: CreateUEs_body_def Let_def)

lemma CreateUEs_silent: "sent (CreateUEs rnd count r) = sent r"
  by (simp add: CreateUEs_def CreateUEs_loop_silent)

lemma CreateUEs_body_inBand: "inBand r \<Longrightarrow> inBand (CreateUEs_body rnd i r)"
  by (auto simp add: inBand_def CreateUEs_body_def Let_def Int63n_def minIMSI_def maxIMSI_def
      dom_update [unfolded dom_map_of_conv_image_fst])

lemma CreateUEs_loop_inBand: "inBand r \<Longrightarrow> inBand (CreateUEs_loop rnd i k r)"
  by (induction k arbitrary: i r) (simp_all add: CreateUEs_body_inBand)

lemma CreateUEs_inBand: "inBand r \<Longrightarrow> inBand (CreateUEs rnd count r)"
  by (simp add: CreateUEs_def CreateUEs_loop_inBand)

lemma CreateUEs_body_distinct:
  "distinct (map fst (ues r)) \<Longrightarrow> distinct (map fst (ues (CreateUEs_body rnd i r)))"
  by (simp add: CreateUEs_body_def Let_def distinct_update)

lemmas registry_eval =
  emptyRegistry_def CreateUEs_def CreateUEs_body_def CreateUEs_loop_numeral Int63n_def
  minIMSI_def maxIMSI_def Let_def sameDraw_def oneUE_def GetUECount_def GetUE_def

lemma WatchUEs_replay_only:
  "WatchUEs ch [\<lparr>Replay = True, Monitor = False\<rparr>] r =
     r\<lparr>sent := sent r @ map (\<lambda>(imsi, ue). (ch, \<lparr>EventUE = ue, EventType = NONE\<rparr>)) (ues r),
       closedChans := closedChans r @ [ch]\<rparr>"
  by (simp add: WatchUEs_def replay_loop_sent close_def)

lemma WatchUEs_monitor:
  "Monitor opts \<Longrightarrow> watchers (WatchUEs ch [opts] r) = watchers r @ [ch]"
  by (simp add: WatchUEs_def replay_loop_sent Let_def)

section \<open>Moving a UE\<close>

text \<open>
  Claim C8.  For a live UE with IMSI \<open>imsi\<close>, held at address \<open>a\<close>, \<open>MoveUE\<close> sets the
  ECGI and the strength of its cell to the arguments and leaves its IMSI, type, location,
  rotation, CRNTI, cell list, admission flag and the cell's ID as they were; no other UE,
  the map and the watcher list do not change; one UPDATED event for that UE is sent to each
  watcher, in the order of the watcher list.  On an absent IMSI \<open>MoveUE\<close> returns NotFound
  and the registry is the one it was given.
\<close>

theorem MoveUE_changes_cell_and_strength:
  "(map_of (ues r) imsi = Some a \<longrightarrow>
      (\<exists>r'. MoveUE imsi ecgi strength r = (None, r') \<and>
         ECGI (Cell (ueHeap r' a)) = ecgi \<and> Strength (Cell (ueHeap r' a)) = strength \<and>
         ID (Cell (ueHeap r' a)) = ID (Cell (ueHeap r a)) \<and>
         IMSI (ueHeap r' a) = IMSI (ueHeap r a) \<and> Type (ueHeap r' a) = Type (ueHeap r a) \<and>
         Location (ueHeap r' a) = Location (ueHeap r a) \<and>
         Rotation (ueHeap r' a) = Rotation (ueHeap r a) \<and>
         CRNTI (ueHeap r' a) = CRNTI (ueHeap r a) \<and> Cells (ueHeap r' a) = Cells (ueHeap r a) \<and>
         IsAdmitted (ueHeap r' a) = IsAdmitted (ueHeap r a) \<and>
         (\<forall>b. b \<noteq> a \<longrightarrow> ueHeap r' b = ueHeap r b) \<and>
         ues r' = ues r \<and> watchers r' = watchers r \<and> closedChans r' = closedChans r \<and>
         sent r' =
           sent r @ map (\<lambda>ch. (ch, \<lparr>EventUE = a, EventType = UPDATED\<rparr>)) (watchers r))) \<and>
   (map_of (ues r) imsi = None \<longrightarrow> MoveUE imsi ecgi strength r = (Some NotFound, r))"
  by (simp add: MoveUE_def notify_sent)

theorem MoveUE_changes_cell_and_strength_witness:
  "map_of (ues (WatchUEs 3 [] oneUE)) 1000005 = Some 0 \<and>
   fst (MoveUE 1000005 42 (3 / 4) (WatchUEs 3 [] oneUE)) = None \<and>
   ECGI (Cell (ueHeap (snd (MoveUE 1000005 42 (3 / 4) (WatchUEs 3 [] oneUE))) 0)) = 42 \<and>
   Strength (Cell (ueHeap (snd (MoveUE 1000005 42 (3 / 4) (WatchUEs 3 [] oneUE))) 0)) = 3 / 4 \<and>
   Type (ueHeap (snd (MoveUE 1000005 42 (3 / 4) (WatchUEs 3 [] oneUE))) 0) = ''phone'' \<and>
   sent (snd (MoveUE 1000005 42 (3 / 4) (WatchUEs 3 [] oneUE))) =
     [(3, \<lparr>EventUE = 0, EventType = UPDATED\<rparr>)] \<and>
   map_of (ues (WatchUEs 3 [] oneUE)) 1000006 = None \<and>
   MoveUE 1000006 42 (3 / 4) (WatchUEs 3 [] oneUE) = (Some NotFound, WatchUEs 3 [] oneUE)"
proof -
  have live: "map_of (ues (WatchUEs 3 [] oneUE)) 1000005 = Some 0"
    by (simp add: WatchUEs_def registry_eval)
  have absent: "map_of (ues (WatchUEs 3 [] oneUE)) 1000006 = None"
    by (simp add: WatchUEs_def registry_eval)
  have start: "sent (WatchUEs 3 [] oneUE) = [] \<and> watchers (WatchUEs 3 [] oneUE) = [3] \<and>
      Type (ueHeap (WatchUEs 3 [] oneUE) 0) = ''phone''"
    by (simp add: WatchUEs_def registry_eval)
  from MoveUE_changes_cell_and_strength [of "WatchUEs 3 [] oneUE" 1000005 0 42 "3 / 4"]
    MoveUE_changes_cell_and_strength [of "WatchUEs 3 [] oneUE" 1000006 0 42 "3 / 4"]
    live absent start
  show ?thesis by auto
qed

section \<open>What the lists and lookups return\<close>

text \<open>
  Claim C9 as stated fails: a UE reached through an element of a list that \<open>ListAllUEs\<close>
  returned earlier shows the cell a later \<open>MoveUE\<close> wrote.
\<close>

theorem listed_UE_changes_counterexample:
  "ListAllUEs oneUE = [0] \<and> GetUE 1000005 oneUE = Inr 0 \<and>
   ECGI (Cell (ueHeap oneUE (hd (ListAllUEs oneUE)))) = 17 \<and>
   ECGI (Cell (ueHeap (snd (MoveUE 1000005 42 (3 / 4) oneUE)) (hd (ListAllUEs oneUE)))) = 42"
  by (simp add: ListAllUEs_refs MoveUE_def notify_sent registry_eval)

text \<open>
  Claim C9 as amended.  \<open>ListAllUEs\<close> and \<open>ListUEs\<close> return a new sequence of the references
  the registry holds (all of them, and those whose cell is the one asked for), and \<open>GetUE\<close>
  returns the registry's own reference.  A later \<open>MoveUE\<close> of a live UE leaves the sequence
  returned by \<open>ListAllUEs\<close> as it was, and the record reached through the reference of
  that UE shows the new cell and strength.
\<close>

theorem returned_references_are_shared:
  "ListAllUEs r = map snd (ues r) \<and>
   ListUEs c r = filter (\<lambda>ue. ECGI (Cell (ueHeap r ue)) = c) (map snd (ues r)) \<and>
   (map_of (ues r) imsi = Some a \<longrightarrow>
      GetUE imsi r = Inr a \<and> a \<in> set (ListAllUEs r) \<and>
      ListAllUEs (snd (MoveUE imsi ecgi strength r)) = ListAllUEs r \<and>
      ECGI (Cell (ueHeap (snd (MoveUE imsi ecgi strength r)) a)) = ecgi \<and>
      Strength (Cell (ueHeap (snd (MoveUE imsi ecgi strength r)) a)) = strength)"
proof -
  have "a \<in> set (map snd (ues r))" if "map_of (ues r) imsi = Some a"
    using map_of_SomeD [OF that] by force
  then show ?thesis
    by (simp add: ListAllUEs_refs ListUEs_refs GetUE_def MoveUE_def notify_sent)
qed

theorem returned_references_are_shared_witness:
  "map_of (ues oneUE) 1000005 = Some 0 \<and> GetUE 1000005 oneUE = Inr 0 \<and>
   0 \<in> set (ListAllUEs oneUE) \<and>
   ListAllUEs (snd (MoveUE 1000005 42 (3 / 4) oneUE)) = ListAllUEs oneUE \<and>
   ECGI (Cell (ueHeap (snd (MoveUE 1000005 42 (3 / 4) oneUE)) 0)) = 42 \<and>
   Strength (Cell (ueHeap (snd (MoveUE 1000005 42 (3 / 4) oneUE)) 0)) = 3 / 4"
proof -
  have live: "map_of (ues oneUE) 1000005 = Some 0"
    by (simp add: registry_eval)
  from returned_references_are_shared [of oneUE 0 1000005 0 42 "3 / 4"] live
  show ?thesis by (simp add: ListAllUEs_refs)
qed

section \<open>Creation under IMSI collisions\<close>

text \<open>
  Claim C3 at a failing input.  From the empty registry, with a random source that
  repeats its sample, \<open>SetUECount 2\<close> leaves one UE, not two: the second iteration draws
  the IMSI of the first, draws it again, and stores over it.  A second \<open>SetUECount 2\<close>,
  with a source that draws another IMSI, then changes the population.
\<close>

theorem SetUECount_falls_short:
  "GetUECount (SetUECount sameDraw 2 emptyRegistry) = 1 \<and>
   GetUECount (SetUECount otherDraw 2 (SetUECount sameDraw 2 emptyRegistry)) = 2"
  by (simp add: SetUECount_def otherDraw_def registry_eval)

text \<open>
  Claim C4 at a failing input.  The registry holds the UE with IMSI 1000005 at address 0.
  Creating one more UE with a source that draws 1000005 twice stores the new UE (address 1)
  under that IMSI: the registry still counts one UE, and the UE at address 0 is no longer
  in it.
\<close>

theorem CreateUEs_overwrites_on_second_collision:
  "GetUE 1000005 oneUE = Inr 0 \<and> ListAllUEs oneUE = [0] \<and>
   GetUE 1000005 (CreateUEs sameDraw 1 oneUE) = Inr 1 \<and>
   ListAllUEs (CreateUEs sameDraw 1 oneUE) = [1] \<and>
   GetUECount (CreateUEs sameDraw 1 oneUE) = 1"
  by (simp add: ListAllUEs_refs registry_eval)

section \<open>Watchers and creation\<close>

text \<open>
  Claim C7 at a failing input.  Channel 3 monitors the registry.  Creating a UE sends
  nothing to it (no ADDED event), while destroying that UE sends it a DELETED event.
\<close>

theorem monitor_hears_no_creation:
  "watchers watched = [3] \<and>
   GetUECount (CreateUEs sameDraw 1 watched) = 1 \<and>
   sent (CreateUEs sameDraw 1 watched) = [] \<and>
   sent (snd (DestroyUE 1000005 (CreateUEs sameDraw 1 watched))) =
     [(3, \<lparr>EventUE = 0, EventType = DELETED\<rparr>)]"
  by (simp add: watched_def WatchUEs_def DestroyUE_def notify_sent registry_eval)

section \<open>Subscribe\<close>

lemma actions_loop_accepted:
  "fst (actions_loop actions accepted notAdmitted) =
     accepted @ map RicActionId
       (filter (\<lambda>action. RicActionType action = RICACTION_TYPE_REPORT) actions)"
  by (induction actions arbitrary: accepted notAdmitted) (simp_all add: Let_def)

lemma actions_loop_pair:
  "\<exists>notAdmitted. actions_loop actions [] [] =
     (map RicActionId (filter (\<lambda>action. RicActionType action = RICACTION_TYPE_REPORT) actions),
      notAdmitted)"
  using actions_loop_accepted [of actions "[]" "[]"]
  by (metis append_Nil prod.collapse)

lemmas kpm_eval =
  sm0_def sub0_def kpm0_def kpm1_def NewID_def
  Subscriptions_Get_def subutils_GetRequesterID_def subutils_GetRanFunctionID_def
  subutils_GetRicInstanceID_def subdeleteutils_GetRequesterID_def
  subdeleteutils_GetRanFunctionID_def subdeleteutils_GetRicInstanceID_def
  BuildSubscriptionFailure_def BuildSubscriptionResponse_def
  BuildSubscriptionDeleteResponse_def Build_def CreateIndication_def NewIndication_def
  WithRequestID_def WithRanFuncID_def WithRicInstanceID_def WithIndicationHeader_def
  WithIndicationMessage_def zeroIndication_def Let_def

text \<open>
  Claim C5.  A request that carries its three identifiers and whose actions are all of
  type insert or policy, and whose failure message validates, is answered with the
  subscription failure carrying the cause "action not supported" and a nil error; no
  report task is started and the shared state is returned as it was, so a key that was
  not in the Subscription Registry is still looked up with NotFound.
\<close>

theorem RICSubscription_rejects_unsupported_actions:
  assumes "RicRequestorId request = Some q" and "RanfunctionId request = Some f"
    and "RicInstanceId request = Some i"
    and "\<forall>action \<in> set (RicactionToBeSetupList request).
           RicActionType action = RICACTION_TYPE_INSERT \<or>
           RicActionType action = RICACTION_TYPE_POLICY"
    and "ValidateSubscriptionFailure sm
           \<lparr>FailRicRequestorId = q, FailRicInstanceId = i, FailRanfunctionId = f,
            FailCause = Some CAUSE_RICREQUEST_ACTION_NOT_SUPPORTED\<rparr> = None"
  shows "RICSubscription sm request st =
           (((None,
              Some \<lparr>FailRicRequestorId = q, FailRicInstanceId = i, FailRanfunctionId = f,
                    FailCause = Some CAUSE_RICREQUEST_ACTION_NOT_SUPPORTED\<rparr>,
              None), None), st) \<and>
         (Subscriptions st (NewID i q f) = None \<longrightarrow>
            Subscriptions_Get (NewID i q f) (snd (RICSubscription sm request st)) = Inl NotFound)"
proof -
  have "filter (\<lambda>action. RicActionType action = RICACTION_TYPE_REPORT)
          (RicactionToBeSetupList request) = []"
    using assms(4) by (auto simp add: filter_empty_conv)
  then obtain notAdmitted where
    none: "actions_loop (RicactionToBeSetupList request) [] [] = ([], notAdmitted)"
    using actions_loop_pair [of "RicactionToBeSetupList request"] by auto
  have reply: "RICSubscription sm request st =
           (((None,
              Some \<lparr>FailRicRequestorId = q, FailRicInstanceId = i, FailRanfunctionId = f,
                    FailCause = Some CAUSE_RICREQUEST_ACTION_NOT_SUPPORTED\<rparr>,
              None), None), st)"
    using assms(1,2,3,5) none
    by (simp add: RICSubscription_def subutils_GetRequesterID_def
        subutils_GetRanFunctionID_def subutils_GetRicInstanceID_def
        BuildSubscriptionFailure_def)
  show ?thesis
    unfolding reply by (simp add: Subscriptions_Get_def)
qed

theorem RICSubscription_rejects_unsupported_actions_witness:
  "RICSubscription sm0 reqUnsupported kpm0 =
     (((None,
        Some \<lparr>FailRicRequestorId = 1, FailRicInstanceId = 3, FailRanfunctionId = 2,
              FailCause = Some CAUSE_RICREQUEST_ACTION_NOT_SUPPORTED\<rparr>,
        None), None), kpm0) \<and>
   Subscriptions kpm0 (NewID 3 1 2) = None \<and>
   Subscriptions_Get (NewID 3 1 2) (snd (RICSubscription sm0 reqUnsupported kpm0)) = Inl NotFound"
proof -
  have q: "RicRequestorId reqUnsupported = Some 1"
    and f: "RanfunctionId reqUnsupported = Some 2"
    and i: "RicInstanceId reqUnsupported = Some 3"
    by (simp_all add: reqUnsupported_def)
  have unsupported: "\<forall>action \<in> set (RicactionToBeSetupList reqUnsupported).
      RicActionType action = RICACTION_TYPE_INSERT \<or>
      RicActionType action = RICACTION_TYPE_POLICY"
    by (simp add: reqUnsupported_def)
  have valid: "ValidateSubscriptionFailure sm0
      \<lparr>FailRicRequestorId = 1, FailRicInstanceId = 3, FailRanfunctionId = 2,
       FailCause = Some CAUSE_RICREQUEST_ACTION_NOT_SUPPORTED\<rparr> = None"
    by (simp add: sm0_def)
  have fresh: "Subscriptions kpm0 (NewID 3 1 2) = None"
    by (simp add: kpm0_def)
  from RICSubscription_rejects_unsupported_actions [OF q f i unsupported valid, of kpm0] fresh
  show ?thesis by (simp add: Subscriptions_Get_def)
qed

lemma report_loop_Subscriptions:
  "Subscriptions (snd (report_loop sm t evs st)) = Subscriptions st"
  by (induction sm t evs st rule: report_loop.induct)
    (auto simp add: Let_def split: option.splits sum.splits)

lemma reportIndication_Subscriptions:
  "Subscriptions (snd (reportIndication sm interval subscr evs st)) = Subscriptions st"
  by (auto simp add: reportIndication_def reportIndication_start_def Let_def
      report_loop_Subscriptions split: sum.splits if_splits)

text \<open>
  Claim C1 as stated fails: the request has a report action and a report period that is
  read, the reply is the subscription success, and the derived key is looked up with
  NotFound afterwards, also once the report task has run its first part.
\<close>

theorem subscription_not_stored_counterexample:
  "getReportPeriod sm0 req0 = Inr 1000 \<and>
   fst (RICSubscription sm0 req0 kpm0) =
     ((Some \<lparr>RspRicRequestorId = 1, RspRicInstanceId = 3, RspRanfunctionId = 2,
             RicactionsAdmitted = [10],
             RicactionsNotAdmitted = [(11, CAUSE_RICREQUEST_ACTION_NOT_SUPPORTED)]\<rparr>,
       None, None), Some (1000, sub0)) \<and>
   Subscriptions_Get (NewID 3 1 2) (snd (RICSubscription sm0 req0 kpm0)) = Inl NotFound \<and>
   reportIndication sm0 1000 sub0 [] (snd (RICSubscription sm0 req0 kpm0)) =
     (Returned (Some NotFound), kpm0)"
  by (simp add: req0_def RICSubscription_def reportIndication_def reportIndication_start_def
      kpm_eval registry_eval)

text \<open>
  Claim C1 as amended.  A request that carries its three identifiers, has at least one
  report action and a report period that is read, and whose success message validates, is
  answered with the subscription success listing exactly the ids of the report actions,
  and the report task is started.  Neither the handler nor the report task stores a
  record in the Subscription Registry: the lookup of the derived key after the call
  answers as it did before the call.
\<close>

theorem RICSubscription_accepts_without_storing:
  assumes "RicRequestorId request = Some q" and "RanfunctionId request = Some f"
    and "RicInstanceId request = Some i"
    and "\<exists>action \<in> set (RicactionToBeSetupList request).
           RicActionType action = RICACTION_TYPE_REPORT"
    and "getReportPeriod sm request = Inr p"
    and "ValidateSubscriptionResponse sm
           \<lparr>RspRicRequestorId = q, RspRicInstanceId = i, RspRanfunctionId = f,
            RicactionsAdmitted = map RicActionId
              (filter (\<lambda>action. RicActionType action = RICACTION_TYPE_REPORT)
                 (RicactionToBeSetupList request)),
            RicactionsNotAdmitted = snd (actions_loop (RicactionToBeSetupList request) [] [])\<rparr>
         = None"
  shows "(\<exists>subscr. RICSubscription sm request st =
            (((Some \<lparr>RspRicRequestorId = q, RspRicInstanceId = i, RspRanfunctionId = f,
                     RicactionsAdmitted = map RicActionId
                       (filter (\<lambda>action. RicActionType action = RICACTION_TYPE_REPORT)
                          (RicactionToBeSetupList request)),
                     RicactionsNotAdmitted =
                       snd (actions_loop (RicactionToBeSetupList request) [] [])\<rparr>,
               None, None), Some (p, subscr)), st) \<and>
            Subscriptions (snd (reportIndication sm p subscr evs st)) = Subscriptions st) \<and>
         Subscriptions_Get (NewID i q f) (snd (RICSubscription sm request st)) =
           Subscriptions_Get (NewID i q f) st"
proof -
  obtain notAdmitted where
    loop: "actions_loop (RicactionToBeSetupList request) [] [] =
      (map RicActionId
         (filter (\<lambda>action. RicActionType action = RICACTION_TYPE_REPORT)
            (RicactionToBeSetupList request)), notAdmitted)"
    using actions_loop_pair by blast
  have some: "filter (\<lambda>action. RicActionType action = RICACTION_TYPE_REPORT)
      (RicactionToBeSetupList request) \<noteq> []"
    using assms(4) by (auto simp add: filter_empty_conv)
  have reply: "RICSubscription sm request st =
      (((Some \<lparr>RspRicRequestorId = q, RspRicInstanceId = i, RspRanfunctionId = f,
               RicactionsAdmitted = map RicActionId
                 (filter (\<lambda>action. RicActionType action = RICACTION_TYPE_REPORT)
                    (RicactionToBeSetupList request)),
               RicactionsNotAdmitted = notAdmitted\<rparr>,
         None, None),
        Some (p, \<lparr>ReqID = q, RanFuncID = f, RicInstanceID = i,
                  ActionsAccepted = map RicActionId
                    (filter (\<lambda>action. RicActionType action = RICACTION_TYPE_REPORT)
                       (RicactionToBeSetupList request)),
                  ActionsNotAdmitted = notAdmitted, Cause = None\<rparr>)), st)"
    using assms(1,2,3,5,6) loop some
    by (simp add: RICSubscription_def subutils_GetRequesterID_def
        subutils_GetRanFunctionID_def subutils_GetRicInstanceID_def
        BuildSubscriptionResponse_def)
  show ?thesis
    unfolding reply using loop by (simp add: reportIndication_Subscriptions)
qed

theorem RICSubscription_accepts_without_storing_witness:
  "fst (fst (RICSubscription sm0 req0 kpm1)) =
     (Some \<lparr>RspRicRequestorId = 1, RspRicInstanceId = 3, RspRanfunctionId = 2,
            RicactionsAdmitted = [10],
            RicactionsNotAdmitted = [(11, CAUSE_RICREQUEST_ACTION_NOT_SUPPORTED)]\<rparr>,
      None, None) \<and>
   Subscriptions_Get (NewID 3 1 2) (snd (RICSubscription sm0 req0 kpm1)) = Inr 0 \<and>
   Subscriptions_Get (NewID 3 1 2) (snd (RICSubscription sm0 req0 kpm0)) = Inl NotFound"
proof -
  have q: "RicRequestorId req0 = Some 1" and f: "RanfunctionId req0 = Some 2"
    and i: "RicInstanceId req0 = Some 3"
    by (simp_all add: req0_def)
  have report: "\<exists>action \<in> set (RicactionToBeSetupList req0).
      RicActionType action = RICACTION_TYPE_REPORT"
    by (simp add: req0_def)
  have period: "getReportPeriod sm0 req0 = Inr 1000"
    by (simp add: sm0_def req0_def)
  have valid: "ValidateSubscriptionResponse sm0
      \<lparr>RspRicRequestorId = 1, RspRicInstanceId = 3, RspRanfunctionId = 2,
       RicactionsAdmitted = map RicActionId
         (filter (\<lambda>action. RicActionType action = RICACTION_TYPE_REPORT)
            (RicactionToBeSetupList req0)),
       RicactionsNotAdmitted = snd (actions_loop (RicactionToBeSetupList req0) [] [])\<rparr>
      = None"
    by (simp add: sm0_def)
  have before: "Subscriptions_Get (NewID 3 1 2) kpm1 = Inr 0"
    "Subscriptions_Get (NewID 3 1 2) kpm0 = Inl NotFound"
    by (simp_all add: kpm_eval)
  have actions: "map RicActionId
      (filter (\<lambda>action. RicActionType action = RICACTION_TYPE_REPORT)
         (RicactionToBeSetupList req0)) = [10]"
    "snd (actions_loop (RicactionToBeSetupList req0) [] []) =
       [(11, CAUSE_RICREQUEST_ACTION_NOT_SUPPORTED)]"
    by (simp_all add: req0_def Let_def)
  from RICSubscription_accepts_without_storing [OF q f i report period valid, of kpm1 "[]"]
    RICSubscription_accepts_without_storing [OF q f i report period valid, of kpm0 "[]"]
    before actions
  show ?thesis by auto
qed

section \<open>The report task\<close>




lemma report_loop_stopped:
  "Ticker (subHeap st (sub t)) = Some ticker \<Longrightarrow> \<not> running ticker \<Longrightarrow>
     delivered (snd (report_loop sm t evs st)) = delivered st"
proof (induction evs arbitrary: st)
  case Nil
  then show ?case by simp
next
  case (Cons ev evs)
  show ?case
  proof (cases ev)
    case (UEsBecome r)
    from Cons.IH [of "st\<lparr>UEs := r\<rparr>"] Cons.prems show ?thesis
      by (simp add: UEsBecome)
  next
    case ContextDone
    with Cons.prems show ?thesis by simp
  next
    case (TickerFires sendResult)
    from Cons.IH [of st] Cons.prems show ?thesis
      by (simp add: TickerFires)
  qed
qed





section \<open>Subscription delete\<close>

text \<open>
  What holds once the ticker is attached.  For a delete request that carries its three
  identifiers: if the Subscription Registry holds a record under the derived key, with
  its ticker attached, and the delete-success message validates, \<open>RICSubscriptionDelete\<close>
  returns that message with nil failure and nil error and stops the ticker of the record,
  after which a report task on that record sends no indication, whatever events follow;
  if the registry holds no record under the key, it returns the error NotFound, no
  response, and the state as it was.
\<close>

lemma RICSubscriptionDelete_stops_ticker:
  assumes "DelRicRequestorId request = Some q" and "DelRanfunctionId request = Some f"
    and "DelRicInstanceId request = Some i"
  shows "(Subscriptions st (NewID i q f) = Some a \<and> Ticker (subHeap st a) = Some ticker \<and>
          ValidateSubscriptionDeleteResponse sm
            \<lparr>DelRspRicRequestorId = q, DelRspRicInstanceId = i, DelRspRanfunctionId = f\<rparr> =
            None \<longrightarrow>
          (\<exists>st'. RICSubscriptionDelete sm request st =
             ((Some \<lparr>DelRspRicRequestorId = q, DelRspRicInstanceId = i,
                     DelRspRanfunctionId = f\<rparr>, None, None), st') \<and>
             Ticker (subHeap st' a) = Some (ticker\<lparr>running := False\<rparr>) \<and>
             (\<forall>t evs. sub t = a \<longrightarrow>
                delivered (snd (report_loop sm t evs st')) = delivered st))) \<and>
         (Subscriptions st (NewID i q f) = None \<longrightarrow>
            RICSubscriptionDelete sm request st = ((None, None, Some NotFound), st))"
proof (intro conjI impI)
  assume found: "Subscriptions st (NewID i q f) = Some a \<and>
      Ticker (subHeap st a) = Some ticker \<and>
      ValidateSubscriptionDeleteResponse sm
        \<lparr>DelRspRicRequestorId = q, DelRspRicInstanceId = i, DelRspRanfunctionId = f\<rparr> = None"
  let ?st = "st\<lparr>subHeap := (subHeap st)
      (a := (subHeap st a)\<lparr>Ticker := Some (ticker\<lparr>running := False\<rparr>)\<rparr>)\<rparr>"
  have reply: "RICSubscriptionDelete sm request st =
      ((Some \<lparr>DelRspRicRequestorId = q, DelRspRicInstanceId = i, DelRspRanfunctionId = f\<rparr>,
        None, None), ?st)"
    using assms found
    by (simp add: RICSubscriptionDelete_def subdeleteutils_GetRequesterID_def
        subdeleteutils_GetRanFunctionID_def subdeleteutils_GetRicInstanceID_def
        Subscriptions_Get_def BuildSubscriptionDeleteResponse_def)
  have stopped: "Ticker (subHeap ?st a) = Some (ticker\<lparr>running := False\<rparr>)"
    by simp
  have quiet: "delivered (snd (report_loop sm t evs ?st)) = delivered st" if "sub t = a"
    for t evs
    using report_loop_stopped [of ?st t "ticker\<lparr>running := False\<rparr>" sm evs] that
    by simp
  from reply stopped quiet
  show "\<exists>st'. RICSubscriptionDelete sm request st =
      ((Some \<lparr>DelRspRicRequestorId = q, DelRspRicInstanceId = i, DelRspRanfunctionId = f\<rparr>,
        None, None), st') \<and>
      Ticker (subHeap st' a) = Some (ticker\<lparr>running := False\<rparr>) \<and>
      (\<forall>t evs. sub t = a \<longrightarrow> delivered (snd (report_loop sm t evs st')) = delivered st)"
    by blast
next
  assume "Subscriptions st (NewID i q f) = None"
  with assms show "RICSubscriptionDelete sm request st = ((None, None, Some NotFound), st)"
    by (simp add: RICSubscriptionDelete_def subdeleteutils_GetRequesterID_def
        subdeleteutils_GetRanFunctionID_def subdeleteutils_GetRicInstanceID_def
        Subscriptions_Get_def)
qed

lemma RICSubscriptionDelete_stops_ticker_at_kpm2:
  "length (delivered (snd (report_loop sm0 task0 [TickerFires None, TickerFires None] kpm2))) = 2 \<and>
   fst (RICSubscriptionDelete sm0 del0 kpm2) =
     (Some \<lparr>DelRspRicRequestorId = 1, DelRspRicInstanceId = 3, DelRspRanfunctionId = 2\<rparr>,
      None, None) \<and>
   delivered (snd (report_loop sm0 task0 [TickerFires None, TickerFires None]
     (snd (RICSubscriptionDelete sm0 del0 kpm2)))) = [] \<and>
   RICSubscriptionDelete sm0 del0 kpm0 = ((None, None, Some NotFound), kpm0)"
proof -
  have q: "DelRicRequestorId del0 = Some 1" and f: "DelRanfunctionId del0 = Some 2"
    and i: "DelRicInstanceId del0 = Some 3"
    by (simp_all add: del0_def)
  have found: "Subscriptions kpm2 (NewID 3 1 2) = Some 0 \<and>
      Ticker (subHeap kpm2 0) = Some \<lparr>period = 1000, running = True\<rparr> \<and>
      ValidateSubscriptionDeleteResponse sm0
        \<lparr>DelRspRicRequestorId = 1, DelRspRicInstanceId = 3, DelRspRanfunctionId = 2\<rparr> = None"
    by (simp add: kpm2_def kpm1_def sm0_def)
  have absent: "Subscriptions kpm0 (NewID 3 1 2) = None"
    by (simp add: kpm0_def)
  have before: "length (delivered (snd (report_loop sm0 task0
      [TickerFires None, TickerFires None] kpm2))) = 2"
    by (simp add: task0_def kpm2_def kpm_eval)
  have start: "delivered kpm2 = []" "sub task0 = 0"
    by (simp_all add: kpm2_def kpm1_def task0_def)
  from RICSubscriptionDelete_stops_ticker
      [OF q f i, of kpm2 0 "\<lparr>period = 1000, running = True\<rparr>" sm0] found
  obtain st' where
    reply: "RICSubscriptionDelete sm0 del0 kpm2 =
      ((Some \<lparr>DelRspRicRequestorId = 1, DelRspRicInstanceId = 3, DelRspRanfunctionId = 2\<rparr>,
        None, None), st')"
    and quiet: "\<forall>t evs. sub t = 0 \<longrightarrow>
      delivered (snd (report_loop sm0 t evs st')) = delivered kpm2"
    by blast
  have silent: "delivered (snd (report_loop sm0 task0 evs st')) = []" for evs
    using quiet start by metis
  have after: "delivered (snd (report_loop sm0 task0 [TickerFires None, TickerFires None]
      (snd (RICSubscriptionDelete sm0 del0 kpm2)))) = []"
    unfolding reply snd_conv by (rule silent)
  from RICSubscriptionDelete_stops_ticker
      [OF q f i, of kpm0 0 "\<lparr>period = 1000, running = True\<rparr>" sm0] absent
  have miss: "RICSubscriptionDelete sm0 del0 kpm0 = ((None, None, Some NotFound), kpm0)"
    by blast
  from before reply after miss show ?thesis
    by (simp only: fst_conv simp_thms)
qed

text \<open>
  Claim C6 at a failing input.  The Subscription Registry holds a record under the key
  of the delete request, and no ticker is attached to it: the report task attaches the
  ticker only after both encodings have succeeded, so this is the record's state until
  the task gets there and for good when the task has returned early, as it does when the
  header cannot be encoded.  \<open>RICSubscriptionDelete\<close> then finds the record, builds the
  response and calls \<open>Stop\<close> on the nil ticker: it panics, where the claim has it return
  the delete-success response.
\<close>

theorem RICSubscriptionDelete_panics_without_ticker:
  "reportIndication smHeaderFails 1000 sub0 [TickerFires None] kpm1 =
     (Returned (Some Invalid), kpm1) \<and>
   Subscriptions_Get (NewID 3 1 2) kpm1 = Inr 0 \<and>
   Ticker (subHeap kpm1 0) = None \<and>
   RICSubscriptionDelete sm0 del0 kpm1 = ((None, None, Some Panic), kpm1)"
  by (simp add: smHeaderFails_def del0_def reportIndication_def reportIndication_start_def
      RICSubscriptionDelete_def subdeleteutils_GetRequesterID_def
      subdeleteutils_GetRanFunctionID_def subdeleteutils_GetRicInstanceID_def
      BuildSubscriptionDeleteResponse_def kpm_eval registry_eval)

end
